theory Spec2Isabelle
  imports Main "HOL-Library.Word"
begin

unbundle bit_operations_syntax

section \<open>PBStx frame transport (fw/pbstx.c)\<close>

text \<open>
  The two functions of \<^verbatim>\<open>fw/pbstx.c\<close> that carry the wire protocol are embedded here:
  \<^verbatim>\<open>pbstx_receive\<close>, the byte-wise receiver state machine, and \<^verbatim>\<open>pbstx_send\<close>, the frame
  writer. Both talk to a ChibiOS byte channel (\<^verbatim>\<open>m_stream\<close>), to the CRC routines of
  \<^verbatim>\<open>pios_crc.h\<close> and to \<^verbatim>\<open>alert_component\<close>; none of these is defined in the file, so
  the channel and the fault indicator are an explicit environment and the CRC step is a
  parameter. The channel calls behave as the ChibiOS/RT 2.x channel interface documents
  them: the single-byte calls \<^verbatim>\<open>chnGetTimeout\<close> and \<^verbatim>\<open>chnPutTimeout\<close> answer with a byte or
  \<^verbatim>\<open>Q_OK\<close>, or with \<^verbatim>\<open>Q_TIMEOUT\<close> or \<^verbatim>\<open>Q_RESET\<close>; the block calls \<^verbatim>\<open>chnReadTimeout\<close> and
  \<^verbatim>\<open>chnWriteTimeout\<close> answer with the number of bytes transferred.
\<close>

subsection \<open>Machine types and constants\<close>

type_synonym uint8_t = "8 word"

text \<open>\<^verbatim>\<open>msg_t\<close> is ChibiOS' 32-bit signed message type.\<close>

type_synonym msg_t = "32 word"

text \<open>
  The result codes come from the ChibiOS/RT 2.x headers (\<^verbatim>\<open>RDY_OK = 0\<close>,
  \<^verbatim>\<open>RDY_TIMEOUT = -1\<close>, \<^verbatim>\<open>RDY_RESET = -2\<close>; \<^verbatim>\<open>Q_OK\<close>, \<^verbatim>\<open>Q_TIMEOUT\<close> and
  \<^verbatim>\<open>Q_RESET\<close> are aliases of them). \<^verbatim>\<open>fw_common.h\<close> maps \<^verbatim>\<open>MSG_OK\<close> to \<^verbatim>\<open>RDY_OK\<close>
  and \<^verbatim>\<open>MSG_RESET\<close> to \<^verbatim>\<open>RDY_RESET\<close>.
\<close>

definition Q_OK :: msg_t where
  "Q_OK = 0"

definition Q_TIMEOUT :: msg_t where
  "Q_TIMEOUT = - 1"

definition Q_RESET :: msg_t where
  "Q_RESET = - 2"

definition MSG_OK :: msg_t where
  "MSG_OK = 0"

definition MSG_RESET :: msg_t where
  "MSG_RESET = - 2"

definition HDR_START :: uint8_t where
  "HDR_START = 0xa5"

subsection \<open>CRC routines\<close>

text \<open>
  \<^verbatim>\<open>PIOS_CRC_updateByte (crc, data)\<close> is taken as a parameter of this type: one step of
  the CRC-8 over a running value.
\<close>

type_synonym crc_update = "uint8_t \<Rightarrow> uint8_t \<Rightarrow> uint8_t"

text \<open>
  Modelled from the spec: \<^verbatim>\<open>PIOS_CRC_updateCRC (crc, data, length)\<close> of \<^verbatim>\<open>pios_crc.h\<close> is
  not among the sources; the spec (4.1) describes it as folding the byte step over a
  buffer. The buffer and its length are one list here.
\<close>

definition PIOS_CRC_updateCRC :: "crc_update \<Rightarrow> uint8_t \<Rightarrow> uint8_t list \<Rightarrow> uint8_t" where
  "PIOS_CRC_updateCRC updateByte crc data = foldl updateByte crc data"

text \<open>
  Modelled from the spec: \<^verbatim>\<open>PIOS_CRC_updateByte\<close> of \<^verbatim>\<open>pios_crc.h\<close> is not among the
  sources, and the spec only calls it a CRC-8 step. To run the model on concrete frames a
  concrete step is needed: the one below is the bitwise CRC-8 with the generator polynomial
  \<open>x\<^sup>8 + x\<^sup>2 + x + 1\<close> (0x07), most significant bit first. The polynomial is a choice made
  here; every general theorem below holds for any byte step. \<open>crc8_shift k\<close> shifts \<open>k\<close>
  bits through the register.
\<close>

fun crc8_shift :: "nat \<Rightarrow> uint8_t \<Rightarrow> uint8_t" where
  "crc8_shift 0 c = c"
| "crc8_shift (Suc k) c =
     crc8_shift k (if bit c 7 then push_bit 1 c XOR 0x07 else push_bit 1 c)"

text \<open>
  Modelled from the spec: the concrete instance of \<^verbatim>\<open>PIOS_CRC_updateByte (crc, data)\<close>, the
  byte xored into the running value and eight bits shifted through.
\<close>

definition crc8_updateByte :: crc_update where
  "crc8_updateByte crc data = crc8_shift 8 (crc XOR data)"

subsection \<open>The receiver and its environment\<close>

datatype rx_state = PR_WAIT_START | PR_SEQ | PR_MSGID | PR_LEN | PR_PAYLOAD | PR_CRC

text \<open>
  What the input side of the channel delivers to successive reads: a byte, or a read that
  ends in a timeout or a channel reset. The input of a world is a finite script of such
  events; an exhausted script means that nothing more arrives, so a read on it times out.
  A channel that delivers bytes for ever without a pause is outside the model.
\<close>

datatype chan_event = Byte uint8_t | Timeout | Reset

datatype al_component = ALS_COMM

datatype al_level = AL_NORMAL | AL_FAIL

text \<open>
  Everything \<^verbatim>\<open>pbstx_receive\<close> does to the outside is logged in call order: a poll of the
  termination flag with its answer, a single-byte read with its result, a bulk read with
  the requested size and its result, and a call of the fault indicator.
\<close>

datatype rx_obs = Poll bool | Get msg_t | Read nat msg_t | Alert al_component al_level

text \<open>
  The function's three \<^verbatim>\<open>static\<close> variables, the caller's three out-parameters (the cells
  behind \<^verbatim>\<open>*msgid\<close>, \<^verbatim>\<open>payload\<close> and \<^verbatim>\<open>*payload_len\<close>), and the environment: the channel's
  pending input, the answers that \<^verbatim>\<open>chThdShouldTerminate\<close> will give (an exhausted list
  answers "no"), and the log. The \<^verbatim>\<open>payload\<close> buffer is a list; the caller must provide
  room for the payload length (a shorter buffer is undefined behaviour in C and is not
  modelled).
\<close>

record rx_world =
  seq :: uint8_t
  pkt_crc :: uint8_t
  rx_state :: rx_state
  msgid :: uint8_t
  payload :: "uint8_t list"
  payload_len :: uint8_t
  rx_in :: "chan_event list"
  term_polls :: "bool list"
  rx_trace :: "rx_obs list"

text \<open>The answer that the next poll of the termination flag gets.\<close>

definition term_requested :: "rx_world \<Rightarrow> bool" where
  "term_requested w = (case term_polls w of [] \<Rightarrow> False | t # _ \<Rightarrow> t)"

definition chThdShouldTerminate :: "rx_world \<Rightarrow> bool \<times> rx_world" where
  "chThdShouldTerminate w =
     (let t = term_requested w
      in (t, w\<lparr>term_polls := tl (term_polls w), rx_trace := rx_trace w @ [Poll t]\<rparr>))"

fun msg_of_event :: "chan_event \<Rightarrow> msg_t" where
  "msg_of_event (Byte b) = ucast b"
| "msg_of_event Timeout = Q_TIMEOUT"
| "msg_of_event Reset = Q_RESET"

text \<open>What a read meets first on a given input, and what the next single-byte read meets.\<close>

definition head_event :: "chan_event list \<Rightarrow> chan_event" where
  "head_event es = (case es of [] \<Rightarrow> Timeout | e # _ \<Rightarrow> e)"

definition next_event :: "rx_world \<Rightarrow> chan_event" where
  "next_event w = head_event (rx_in w)"

definition chnGetTimeout :: "rx_world \<Rightarrow> msg_t \<times> rx_world" where
  "chnGetTimeout w =
     (let ret = msg_of_event (next_event w)
      in (ret, w\<lparr>rx_in := tl (rx_in w), rx_trace := rx_trace w @ [Get ret]\<rparr>))"

text \<open>
  The bulk read takes bytes from the input until \<open>n\<close> are there or the input has a
  timeout or reset (or nothing more): the bytes received, and the input left. The
  timeout or reset that ends a short read is used up by it.
\<close>

fun read_bytes :: "nat \<Rightarrow> chan_event list \<Rightarrow> uint8_t list \<times> chan_event list" where
  "read_bytes n [] = ([], [])"
| "read_bytes n (e # es) =
     (if n = 0 then ([], e # es)
      else case e of
        Byte b \<Rightarrow> (case read_bytes (n - 1) es of (bs, es') \<Rightarrow> (b # bs, es'))
      | Timeout \<Rightarrow> ([], es)
      | Reset \<Rightarrow> ([], es))"

text \<open>
  Modelled from the spec: \<^verbatim>\<open>chnReadTimeout (m_stream, payload, n, SER_PAYLOAD_TIMEOUT)\<close> is a
  ChibiOS channel call and not among the sources; the spec (4.2) has it as the timed bulk
  read of the payload. Its result is what the ChibiOS channel interface returns, the
  number of bytes transferred: the bytes that arrived before the read was complete, timed
  out or met a reset are in the caller's buffer, and the result is their number. It is
  \<open>n\<close> for a complete read and less for a short one, and never \<^verbatim>\<open>Q_TIMEOUT\<close> or
  \<^verbatim>\<open>Q_RESET\<close>. \<^verbatim>\<open>pbstx_receive\<close> calls it with \<open>n\<close> from 1 to 255.
\<close>

definition chnReadTimeout :: "nat \<Rightarrow> rx_world \<Rightarrow> msg_t \<times> rx_world" where
  "chnReadTimeout n w =
     (case read_bytes n (rx_in w) of (bs, es) \<Rightarrow>
        (let ret = of_nat (length bs)
         in (ret, w\<lparr>payload := bs @ drop (length bs) (payload w), rx_in := es,
                     rx_trace := rx_trace w @ [Read n ret]\<rparr>)))"

text \<open>
  Modelled from the spec: \<^verbatim>\<open>alert_component\<close> of \<^verbatim>\<open>alert_led.h\<close> is not among the sources;
  the spec (6) gives it as \<open>signal (component, level)\<close>. The call is logged.
\<close>

definition alert_component :: "al_component \<Rightarrow> al_level \<Rightarrow> rx_world \<Rightarrow> rx_world" where
  "alert_component c l w = w\<lparr>rx_trace := rx_trace w @ [Alert c l]\<rparr>"

text \<open>One pass through the loop body either returns from the function or goes round again.\<close>

datatype rx_step = Return (code: msg_t) (world: rx_world) | Continue (world: rx_world)

text \<open>The code under \<^verbatim>\<open>case PR_PAYLOAD\<close>, which \<^verbatim>\<open>case PR_LEN\<close> falls through to.\<close>

definition rx_payload :: "crc_update \<Rightarrow> rx_world \<Rightarrow> rx_step" where
  "rx_payload updateByte w =
     (case chnReadTimeout (unat (payload_len w)) w of (ret, w1) \<Rightarrow>
        if ret = Q_TIMEOUT \<or> ret = Q_RESET
        then Return ret ((alert_component ALS_COMM AL_FAIL w1)\<lparr>rx_state := PR_WAIT_START\<rparr>)
        else Continue (w1\<lparr>pkt_crc := PIOS_CRC_updateCRC updateByte (pkt_crc w1)
                                        (take (unat (payload_len w1)) (payload w1)),
                           rx_state := PR_CRC\<rparr>))"

text \<open>
  The \<^verbatim>\<open>switch (rx_state)\<close>. The C \<^verbatim>\<open>default\<close> branch has no counterpart: the datatype has
  the six values of the enum only.
\<close>

definition rx_switch :: "crc_update \<Rightarrow> msg_t \<Rightarrow> rx_world \<Rightarrow> rx_step" where
  "rx_switch updateByte ret w =
     (case rx_state w of
        PR_WAIT_START \<Rightarrow>
          Continue (if ret = ucast HDR_START then w\<lparr>rx_state := PR_SEQ\<rparr> else w)
      | PR_SEQ \<Rightarrow>
          Continue (w\<lparr>seq := ucast ret, pkt_crc := updateByte 0 (ucast ret),
                      rx_state := PR_MSGID\<rparr>)
      | PR_MSGID \<Rightarrow>
          Continue (w\<lparr>msgid := ucast ret, pkt_crc := updateByte (pkt_crc w) (ucast ret),
                      rx_state := PR_LEN\<rparr>)
      | PR_LEN \<Rightarrow>
          (let w1 = w\<lparr>payload_len := ucast ret,
                      pkt_crc := updateByte (pkt_crc w) (ucast ret),
                      rx_state := PR_PAYLOAD\<rparr>
           in if payload_len w1 = 0 then Continue (w1\<lparr>rx_state := PR_CRC\<rparr>)
              else rx_payload updateByte w1)
      | PR_PAYLOAD \<Rightarrow> rx_payload updateByte w
      | PR_CRC \<Rightarrow>
          (let w1 = w\<lparr>rx_state := PR_WAIT_START\<rparr>
           in if ucast (pkt_crc w1) = ret
              then Return MSG_OK (alert_component ALS_COMM AL_NORMAL w1)
              else Return MSG_RESET (alert_component ALS_COMM AL_FAIL w1)))"

text \<open>The loop body: the single-byte read, its timeout guard, then the switch.\<close>

definition rx_iteration :: "crc_update \<Rightarrow> rx_world \<Rightarrow> rx_step" where
  "rx_iteration updateByte w =
     (case chnGetTimeout w of (ret, w1) \<Rightarrow>
        if ret = Q_TIMEOUT \<or> ret = Q_RESET then Return ret w1
        else rx_switch updateByte ret w1)"

text \<open>
  \<^verbatim>\<open>pbstx_receive\<close>: the \<^verbatim>\<open>while (!chThdShouldTerminate ())\<close> loop and the
  \<^verbatim>\<open>return MSG_RESET\<close> after it. Every pass that goes round again has taken at least one
  event from the channel's input, so on a finite input the loop ends.
\<close>

function pbstx_receive :: "crc_update \<Rightarrow> rx_world \<Rightarrow> msg_t \<times> rx_world" where
  "pbstx_receive updateByte w =
     (case chThdShouldTerminate w of (t, w1) \<Rightarrow>
        if t then (MSG_RESET, w1)
        else (case rx_iteration updateByte w1 of
                Return ret w2 \<Rightarrow> (ret, w2)
              | Continue w2 \<Rightarrow> pbstx_receive updateByte w2))"
  by pat_completeness auto

subsection \<open>The sender and its environment\<close>

text \<open>
  How the channel answers a write: everything was taken, or the write was cut short by a
  timeout or by a reset after the given number of bytes. An exhausted script means that
  every further write succeeds.
\<close>

datatype tx_outcome = Sent | TxTimeout nat | TxReset nat

text \<open>
  The log of \<^verbatim>\<open>pbstx_send\<close>: taking and releasing \<^verbatim>\<open>tx_mutex\<close>, a block write with the
  bytes handed to the channel and the result, and a single-byte write.
\<close>

datatype tx_obs = Lock | Unlock | Write "uint8_t list" msg_t | Put uint8_t msg_t

text \<open>The \<^verbatim>\<open>static\<close> sequence counter of \<^verbatim>\<open>pbstx_send\<close> and the environment.\<close>

record tx_world =
  tx_seq :: uint8_t
  tx_outcomes :: "tx_outcome list"
  tx_trace :: "tx_obs list"

definition next_outcome :: "tx_world \<Rightarrow> tx_outcome" where
  "next_outcome w = (case tx_outcomes w of [] \<Rightarrow> Sent | x # _ \<Rightarrow> x)"

definition chMtxLock :: "tx_world \<Rightarrow> tx_world" where
  "chMtxLock w = w\<lparr>tx_trace := tx_trace w @ [Lock]\<rparr>"

definition chMtxUnlock :: "tx_world \<Rightarrow> tx_world" where
  "chMtxUnlock w = w\<lparr>tx_trace := tx_trace w @ [Unlock]\<rparr>"

text \<open>
  Modelled from the spec: \<^verbatim>\<open>chnWriteTimeout (m_stream, bp, n, timeout)\<close> is a ChibiOS
  channel call and not among the sources; the spec (4.2) has it as the timed write of the
  header and of the payload. Its result is what the ChibiOS channel interface returns, the
  number of bytes transferred: the length of the block for a complete write, the number
  of bytes taken before the timeout or reset for a short one, and never \<^verbatim>\<open>Q_TIMEOUT\<close> or
  \<^verbatim>\<open>Q_RESET\<close>.
\<close>

definition chnWriteTimeout :: "uint8_t list \<Rightarrow> tx_world \<Rightarrow> msg_t \<times> tx_world" where
  "chnWriteTimeout bs w =
     (let ret = (case next_outcome w of
                   Sent \<Rightarrow> of_nat (length bs)
                 | TxTimeout k \<Rightarrow> of_nat (min k (length bs))
                 | TxReset k \<Rightarrow> of_nat (min k (length bs)))
      in (ret, w\<lparr>tx_outcomes := tl (tx_outcomes w), tx_trace := tx_trace w @ [Write bs ret]\<rparr>))"

text \<open>
  The single-byte write \<^verbatim>\<open>chnPutTimeout\<close> answers \<^verbatim>\<open>Q_OK\<close>, \<^verbatim>\<open>Q_TIMEOUT\<close> or \<^verbatim>\<open>Q_RESET\<close>; the
  byte count of a failed outcome has no meaning for it.
\<close>

definition chnPutTimeout :: "uint8_t \<Rightarrow> tx_world \<Rightarrow> msg_t \<times> tx_world" where
  "chnPutTimeout b w =
     (let ret = (case next_outcome w of
                   Sent \<Rightarrow> Q_OK
                 | TxTimeout k \<Rightarrow> Q_TIMEOUT
                 | TxReset k \<Rightarrow> Q_RESET)
      in (ret, w\<lparr>tx_outcomes := tl (tx_outcomes w), tx_trace := tx_trace w @ [Put b ret]\<rparr>))"

text \<open>
  \<^verbatim>\<open>pbstx_send (msgid, payload, payload_len)\<close>, with \<open>m\<close>, \<open>p\<close> and \<open>n\<close> for the three
  arguments. The buffer \<open>p\<close> must hold at least \<open>n\<close> bytes; the first \<open>n\<close> are sent. The
  header is built, and \<^verbatim>\<open>tx_seq\<close> incremented, before the mutex is taken; both
  \<^verbatim>\<open>goto unlock_ret\<close> and the normal path release it.
\<close>

definition pbstx_send ::
    "crc_update \<Rightarrow> uint8_t \<Rightarrow> uint8_t list \<Rightarrow> uint8_t \<Rightarrow> tx_world \<Rightarrow> msg_t \<times> tx_world" where
  "pbstx_send updateByte m p n w =
     (let header = [HDR_START, tx_seq w, m, n];
          w0 = w\<lparr>tx_seq := tx_seq w + 1\<rparr>;
          w1 = chMtxLock w0;
          crc = PIOS_CRC_updateCRC updateByte 0 (tl header)
      in case chnWriteTimeout header w1 of (ret, w2) \<Rightarrow>
           if ret = Q_TIMEOUT \<or> ret = Q_RESET then (ret, chMtxUnlock w2)
           else if n > 0 then
             (let crc' = PIOS_CRC_updateCRC updateByte crc (take (unat n) p)
              in case chnWriteTimeout (take (unat n) p) w2 of (ret, w3) \<Rightarrow>
                   if ret = Q_TIMEOUT \<or> ret = Q_RESET then (ret, chMtxUnlock w3)
                   else (case chnPutTimeout crc' w3 of (ret, w4) \<Rightarrow> (ret, chMtxUnlock w4)))
           else (case chnPutTimeout crc w2 of (ret, w4) \<Rightarrow> (ret, chMtxUnlock w4)))"

text \<open>The bytes handed to the channel by the calls in a log, in order.\<close>

fun written :: "tx_obs list \<Rightarrow> uint8_t list" where
  "written [] = []"
| "written (Write bs r # tr) = bs @ written tr"
| "written (Put b r # tr) = b # written tr"
| "written (Lock # tr) = written tr"
| "written (Unlock # tr) = written tr"

subsection \<open>Reading the logs, and the state at start-up\<close>

text \<open>The calls of the fault indicator in a log, in order.\<close>

fun alerts :: "rx_obs list \<Rightarrow> (al_component \<times> al_level) list" where
  "alerts [] = []"
| "alerts (Alert c l # tr) = (c, l) # alerts tr"
| "alerts (Poll t # tr) = alerts tr"
| "alerts (Get r # tr) = alerts tr"
| "alerts (Read n r # tr) = alerts tr"

text \<open>
  The shape of the log of one call. The call is at the loop head, has just polled the
  termination flag and been told to go on, or is in the loop body after its single-byte
  read. A poll happens at the loop head or after a body, never twice in a row; a poll
  answered "yes" is the last entry; a poll answered "no" is followed at once by the
  single-byte read; a bulk read or an alert happens in a body only.
\<close>

datatype phase = LoopHead | Polled | Body

fun paced :: "phase \<Rightarrow> rx_obs list \<Rightarrow> bool" where
  "paced ph [] = (ph \<noteq> Polled)"
| "paced ph (Poll t # tr) = (ph \<noteq> Polled \<and> (if t then tr = [] else paced Polled tr))"
| "paced ph (Get r # tr) = (ph = Polled \<and> paced Body tr)"
| "paced ph (Read n r # tr) = (ph = Body \<and> paced Body tr)"
| "paced ph (Alert c l # tr) = (ph = Body \<and> paced Body tr)"

text \<open>The entries that a loop body adds after its single-byte read.\<close>

fun is_effect :: "rx_obs \<Rightarrow> bool" where
  "is_effect (Read n r) = True"
| "is_effect (Alert c l) = True"
| "is_effect (Poll t) = False"
| "is_effect (Get r) = False"

text \<open>
  The receiver before its first call: the \<^verbatim>\<open>static\<close> initialisers of \<^verbatim>\<open>pbstx_receive\<close>, a
  zeroed \<^verbatim>\<open>*msgid\<close> and \<^verbatim>\<open>*payload_len\<close>, the caller's buffer, the channel's input, no
  termination request and an empty log.
\<close>

definition rx_init :: "uint8_t list \<Rightarrow> chan_event list \<Rightarrow> rx_world" where
  "rx_init buf input =
     \<lparr>seq = 0, pkt_crc = 0, rx_state = PR_WAIT_START, msgid = 0, payload = buf,
      payload_len = 0, rx_in = input, term_polls = [], rx_trace = []\<rparr>"

text \<open>The sender before its first call: \<^verbatim>\<open>tx_seq = 0\<close>.\<close>

definition tx_init :: "tx_outcome list \<Rightarrow> tx_world" where
  "tx_init outcomes = \<lparr>tx_seq = 0, tx_outcomes = outcomes, tx_trace = []\<rparr>"

section \<open>Auxiliary facts\<close>

subsection \<open>The receive loop ends\<close>

lemma read_bytes_length:
  "read_bytes n es = (bs, es') \<Longrightarrow> length es' \<le> length es"
proof (induction n es arbitrary: bs es' rule: read_bytes.induct)
  case (1 n)
  then show ?case by simp
next
  case (2 n e es)
  show ?case
  proof (cases "n = 0")
    case True
    with "2.prems" show ?thesis by simp
  next
    case False
    show ?thesis
    proof (cases e)
      case (Byte b)
      obtain bs0 es0 where rb: "read_bytes (n - 1) es = (bs0, es0)"
        by (cases "read_bytes (n - 1) es") auto
      from "2.IH" [OF False Byte rb] have "length es0 \<le> length es" .
      moreover from "2.prems" False Byte rb have "es' = es0" by simp
      ultimately show ?thesis by simp
    next
      case Timeout
      with "2.prems" False show ?thesis by simp
    next
      case Reset
      with "2.prems" False show ?thesis by simp
    qed
  qed
qed

lemma rx_payload_rx_in:
  "rx_payload updateByte w = Continue w' \<Longrightarrow> length (rx_in w') \<le> length (rx_in w)"
  by (auto simp: rx_payload_def chnReadTimeout_def Let_def
           split: prod.splits if_splits dest: read_bytes_length)

lemma rx_switch_rx_in:
  "rx_switch updateByte ret w = Continue w' \<Longrightarrow> length (rx_in w') \<le> length (rx_in w)"
  by (auto simp: rx_switch_def Let_def alert_component_def
           split: rx_state.splits if_splits dest: rx_payload_rx_in)

lemma rx_iteration_rx_in:
  "rx_iteration updateByte w = Continue w' \<Longrightarrow> length (rx_in w') < length (rx_in w)"
proof -
  assume c: "rx_iteration updateByte w = Continue w'"
  show ?thesis
  proof (cases "rx_in w")
    case Nil
    with c show ?thesis
      by (simp add: rx_iteration_def chnGetTimeout_def next_event_def head_event_def Let_def)
  next
    case (Cons e es)
    let ?w1 = "snd (chnGetTimeout w)"
    from c have "rx_switch updateByte (fst (chnGetTimeout w)) ?w1 = Continue w'"
      by (simp add: rx_iteration_def split: prod.splits if_splits)
    then have "length (rx_in w') \<le> length (rx_in ?w1)"
      by (rule rx_switch_rx_in)
    also from Cons have "length (rx_in ?w1) < length (rx_in w)"
      by (simp add: chnGetTimeout_def Let_def)
    finally show ?thesis .
  qed
qed

termination pbstx_receive
proof (relation "measure (\<lambda>(u, w). length (rx_in w))", goal_cases)
  case 1
  show ?case by simp
next
  case (2 updateByte w t w1 w2)
  then have "length (rx_in w2) < length (rx_in w1)" and "rx_in w1 = rx_in w"
    by (auto simp: chThdShouldTerminate_def Let_def dest: rx_iteration_rx_in)
  then show ?case by simp
qed

declare pbstx_receive.simps [simp del]

subsection \<open>Bytes and result codes\<close>

lemma Q_TIMEOUT_uint: "uint Q_TIMEOUT = 4294967295"
  by (simp add: Q_TIMEOUT_def unsigned_minus_1_eq_mask mask_eq_exp_minus_1)

lemma Q_RESET_uint: "uint Q_RESET = 4294967294"
  by (simp add: Q_RESET_def)

lemma byte_msg_round: "(ucast (ucast (b::uint8_t) :: msg_t) :: uint8_t) = b"
  by (simp add: ucast_up_ucast_id is_up)

lemma byte_msg_inj: "((ucast (c::uint8_t) :: msg_t) = ucast (b::uint8_t)) = (c = b)"
  by (metis byte_msg_round)

lemma uint_byte_msg: "uint (ucast (b::uint8_t) :: msg_t) = uint b"
  by (simp add: uint_up_ucast is_up)

lemma uint_byte_less: "uint (b::uint8_t) < 256"
  using uint_bounded [of b] by simp

lemma byte_msg_not_failure:
  "(ucast (b::uint8_t) :: msg_t) \<noteq> Q_TIMEOUT" "(ucast (b::uint8_t) :: msg_t) \<noteq> Q_RESET"
proof -
  have less: "uint (ucast b :: msg_t) < 256"
    using uint_byte_less [of b] by (simp add: uint_byte_msg)
  show "(ucast b :: msg_t) \<noteq> Q_TIMEOUT"
  proof
    assume "(ucast b :: msg_t) = Q_TIMEOUT"
    with less show False by (simp add: Q_TIMEOUT_uint)
  qed
  show "(ucast b :: msg_t) \<noteq> Q_RESET"
  proof
    assume "(ucast b :: msg_t) = Q_RESET"
    with less show False by (simp add: Q_RESET_uint)
  qed
qed

lemma count_msg_not_failure:
  assumes "n < 256"
  shows "(of_nat n :: msg_t) \<noteq> Q_TIMEOUT" and "(of_nat n :: msg_t) \<noteq> Q_RESET"
proof -
  from assms have u: "uint (of_nat n :: msg_t) = int n"
    by (simp add: uint_nat unat_of_nat)
  show "(of_nat n :: msg_t) \<noteq> Q_TIMEOUT"
  proof
    assume "(of_nat n :: msg_t) = Q_TIMEOUT"
    with u assms show False by (simp add: Q_TIMEOUT_uint)
  qed
  show "(of_nat n :: msg_t) \<noteq> Q_RESET"
  proof
    assume "(of_nat n :: msg_t) = Q_RESET"
    with u assms show False by (simp add: Q_RESET_uint)
  qed
qed

lemma unat_byte_less: "unat (b::uint8_t) < 256"
proof -
  have "unat b < 2 ^ LENGTH(8)" by (rule unsigned_less)
  then show ?thesis by simp
qed

subsection \<open>One pass of the receive loop\<close>

lemma alerts_append: "alerts (tr @ tr') = alerts tr @ alerts tr'"
  by (induction tr rule: alerts.induct) simp_all

lemma receive_terminate:
  "term_requested w \<Longrightarrow>
   pbstx_receive upd w =
     (MSG_RESET, w\<lparr>term_polls := tl (term_polls w), rx_trace := rx_trace w @ [Poll True]\<rparr>)"
  by (subst pbstx_receive.simps) (simp add: chThdShouldTerminate_def)

lemma receive_running:
  "\<not> term_requested w \<Longrightarrow>
   pbstx_receive upd w =
     (case rx_iteration upd
             (w\<lparr>term_polls := tl (term_polls w), rx_trace := rx_trace w @ [Poll False]\<rparr>) of
        Return ret w2 \<Rightarrow> (ret, w2)
      | Continue w2 \<Rightarrow> pbstx_receive upd w2)"
  by (subst pbstx_receive.simps) (simp add: chThdShouldTerminate_def)

lemma iteration_byte:
  "rx_in w = Byte b # es \<Longrightarrow>
   rx_iteration upd w =
     rx_switch upd (ucast b) (w\<lparr>rx_in := es, rx_trace := rx_trace w @ [Get (ucast b)]\<rparr>)"
  by (simp add: rx_iteration_def chnGetTimeout_def next_event_def head_event_def Let_def
      byte_msg_not_failure)

lemma iteration_failure:
  "next_event w = Timeout \<or> next_event w = Reset \<Longrightarrow>
   rx_iteration upd w =
     Return (msg_of_event (next_event w))
       (w\<lparr>rx_in := tl (rx_in w),
          rx_trace := rx_trace w @ [Get (msg_of_event (next_event w))]\<rparr>)"
  by (auto simp add: rx_iteration_def chnGetTimeout_def)

lemma read_bytes_all:
  "length p = n \<Longrightarrow> read_bytes n (map Byte p @ es) = (p, es)"
proof (induction p arbitrary: n)
  case Nil
  then show ?case by (cases es) simp_all
next
  case (Cons b p)
  then have "read_bytes (n - 1) (map Byte p @ es) = (p, es)" by auto
  with Cons.prems show ?case by auto
qed

lemma step_WAIT_START:
  assumes "rx_state w = PR_WAIT_START" "rx_in w = Byte b # es" "\<not> term_requested w"
    and "w' = w\<lparr>rx_state := (if b = HDR_START then PR_SEQ else PR_WAIT_START), rx_in := es,
      term_polls := tl (term_polls w),
      rx_trace := rx_trace w @ [Poll False, Get (ucast b)]\<rparr>"
  shows "pbstx_receive upd w = pbstx_receive upd w'"
proof -
  have "rx_iteration upd
          (w\<lparr>term_polls := tl (term_polls w), rx_trace := rx_trace w @ [Poll False]\<rparr>) =
        Continue w'"
    using assms by (simp add: iteration_byte rx_switch_def byte_msg_inj)
  with assms(3) show ?thesis by (simp add: receive_running)
qed

lemma step_SEQ:
  assumes "rx_state w = PR_SEQ" "rx_in w = Byte b # es" "\<not> term_requested w"
    and "w' = w\<lparr>seq := b, pkt_crc := upd 0 b, rx_state := PR_MSGID, rx_in := es,
      term_polls := tl (term_polls w),
      rx_trace := rx_trace w @ [Poll False, Get (ucast b)]\<rparr>"
  shows "pbstx_receive upd w = pbstx_receive upd w'"
proof -
  have "rx_iteration upd
          (w\<lparr>term_polls := tl (term_polls w), rx_trace := rx_trace w @ [Poll False]\<rparr>) =
        Continue w'"
    using assms by (simp add: iteration_byte rx_switch_def byte_msg_round)
  with assms(3) show ?thesis by (simp add: receive_running)
qed

lemma step_MSGID:
  assumes "rx_state w = PR_MSGID" "rx_in w = Byte b # es" "\<not> term_requested w"
    and "w' = w\<lparr>pkt_crc := upd (pkt_crc w) b, rx_state := PR_LEN, msgid := b, rx_in := es,
      term_polls := tl (term_polls w),
      rx_trace := rx_trace w @ [Poll False, Get (ucast b)]\<rparr>"
  shows "pbstx_receive upd w = pbstx_receive upd w'"
proof -
  have "rx_iteration upd
          (w\<lparr>term_polls := tl (term_polls w), rx_trace := rx_trace w @ [Poll False]\<rparr>) =
        Continue w'"
    using assms by (simp add: iteration_byte rx_switch_def byte_msg_round)
  with assms(3) show ?thesis by (simp add: receive_running)
qed

lemma step_LEN_zero:
  assumes "rx_state w = PR_LEN" "rx_in w = Byte 0 # es" "\<not> term_requested w"
    and "w' = w\<lparr>pkt_crc := upd (pkt_crc w) 0, rx_state := PR_CRC, payload_len := 0,
      rx_in := es, term_polls := tl (term_polls w),
      rx_trace := rx_trace w @ [Poll False, Get 0]\<rparr>"
  shows "pbstx_receive upd w = pbstx_receive upd w'"
proof -
  have "rx_iteration upd
          (w\<lparr>term_polls := tl (term_polls w), rx_trace := rx_trace w @ [Poll False]\<rparr>) =
        Continue w'"
    using assms by (simp add: iteration_byte rx_switch_def)
  with assms(3) show ?thesis by (simp add: receive_running)
qed

lemma step_LEN_payload:
  assumes "rx_state w = PR_LEN" "rx_in w = Byte n # map Byte p @ es" "\<not> term_requested w"
    and "n \<noteq> 0" "length p = unat n"
    and "w' = w\<lparr>pkt_crc := PIOS_CRC_updateCRC upd (upd (pkt_crc w) n) p, rx_state := PR_CRC,
      payload := p @ drop (unat n) (payload w), payload_len := n, rx_in := es,
      term_polls := tl (term_polls w),
      rx_trace := rx_trace w @ [Poll False, Get (ucast n), Read (unat n) (ucast n)]\<rparr>"
  shows "pbstx_receive upd w = pbstx_receive upd w'"
proof -
  have "rx_iteration upd
          (w\<lparr>term_polls := tl (term_polls w), rx_trace := rx_trace w @ [Poll False]\<rparr>) =
        Continue w'"
    using assms
    by (simp add: iteration_byte rx_switch_def byte_msg_round rx_payload_def
        chnReadTimeout_def read_bytes_all Let_def byte_msg_not_failure)
  with assms(3) show ?thesis by (simp add: receive_running)
qed

lemma step_CRC:
  assumes "rx_state w = PR_CRC" "rx_in w = Byte c # es" "\<not> term_requested w"
  shows "pbstx_receive upd w =
    (if pkt_crc w = c then MSG_OK else MSG_RESET,
      w\<lparr>rx_state := PR_WAIT_START, rx_in := es,
         term_polls := tl (term_polls w),
         rx_trace := rx_trace w @ [Poll False, Get (ucast c),
            Alert ALS_COMM (if pkt_crc w = c then AL_NORMAL else AL_FAIL)]\<rparr>)"
  using assms
  by (simp add: receive_running iteration_byte rx_switch_def byte_msg_inj alert_component_def)

lemma no_request:
  "True \<notin> set (term_polls w) \<Longrightarrow> \<not> term_requested w"
  by (cases "term_polls w") (simp_all add: term_requested_def)

lemma no_request_tl:
  "True \<notin> set ps \<Longrightarrow> True \<notin> set (tl ps)"
  by (cases ps) simp_all

lemma drop_5_tl: "drop 5 ps = tl (tl (tl (tl (tl ps))))"
  by (simp add: numeral_eq_Suc drop_Suc)

subsection \<open>A whole frame in one call\<close>

lemma receive_frame:
  assumes idle: "rx_state w = PR_WAIT_START"
    and input: "rx_in w = map Byte (HDR_START # s # m # n # p @ [c]) @ es"
    and len: "length p = unat n"
    and run: "True \<notin> set (term_polls w)"
  shows "pbstx_receive upd w =
     (if PIOS_CRC_updateCRC upd 0 (s # m # n # p) = c then MSG_OK else MSG_RESET,
      w\<lparr>seq := s, pkt_crc := PIOS_CRC_updateCRC upd 0 (s # m # n # p),
        rx_state := PR_WAIT_START, msgid := m, payload := p @ drop (unat n) (payload w),
        payload_len := n, rx_in := es, term_polls := drop 5 (term_polls w),
        rx_trace := rx_trace w @
          [Poll False, Get (ucast HDR_START), Poll False, Get (ucast s),
           Poll False, Get (ucast m), Poll False, Get (ucast n)] @
          (if n = 0 then [] else [Read (unat n) (ucast n)]) @
          [Poll False, Get (ucast c),
           Alert ALS_COMM
             (if PIOS_CRC_updateCRC upd 0 (s # m # n # p) = c then AL_NORMAL else AL_FAIL)]\<rparr>)"
proof -
  define C where "C = PIOS_CRC_updateCRC upd 0 (s # m # n # p)"
  define rd where "rd = (if n = 0 then [] else [Read (unat n) (ucast n)])"
  have C_alt: "PIOS_CRC_updateCRC upd (upd (upd (upd 0 s) m) n) p = C"
    by (simp add: C_def PIOS_CRC_updateCRC_def)
  define w1 where "w1 = w\<lparr>rx_state := PR_SEQ,
    rx_in := map Byte (s # m # n # p @ [c]) @ es, term_polls := tl (term_polls w),
    rx_trace := rx_trace w @ [Poll False, Get (ucast HDR_START)]\<rparr>"
  define w2 where "w2 = w1\<lparr>seq := s, pkt_crc := upd 0 s, rx_state := PR_MSGID,
    rx_in := map Byte (m # n # p @ [c]) @ es, term_polls := tl (term_polls w1),
    rx_trace := rx_trace w1 @ [Poll False, Get (ucast s)]\<rparr>"
  define w3 where "w3 = w2\<lparr>pkt_crc := upd (pkt_crc w2) m, rx_state := PR_LEN, msgid := m,
    rx_in := map Byte (n # p @ [c]) @ es, term_polls := tl (term_polls w2),
    rx_trace := rx_trace w2 @ [Poll False, Get (ucast m)]\<rparr>"
  define w4 where "w4 = w3\<lparr>pkt_crc := PIOS_CRC_updateCRC upd (upd (pkt_crc w3) n) p,
    rx_state := PR_CRC, payload := p @ drop (unat n) (payload w3), payload_len := n,
    rx_in := Byte c # es, term_polls := tl (term_polls w3),
    rx_trace := rx_trace w3 @ [Poll False, Get (ucast n)] @ rd\<rparr>"
  have r0: "\<not> term_requested w"
    using run by (rule no_request)
  have r1: "\<not> term_requested w1"
    using run by (intro no_request) (simp add: w1_def no_request_tl)
  have r2: "\<not> term_requested w2"
    using run by (intro no_request) (simp add: w1_def w2_def no_request_tl)
  have r3: "\<not> term_requested w3"
    using run by (intro no_request) (simp add: w1_def w2_def w3_def no_request_tl)
  have r4: "\<not> term_requested w4"
    using run by (intro no_request) (simp add: w1_def w2_def w3_def w4_def no_request_tl)
  have "pbstx_receive upd w = pbstx_receive upd w1"
    using idle _ r0
  proof (rule step_WAIT_START)
    show "rx_in w = Byte HDR_START # map Byte (s # m # n # p @ [c]) @ es"
      using input by simp
    show "w1 = w\<lparr>rx_state := if HDR_START = HDR_START then PR_SEQ else PR_WAIT_START,
        rx_in := map Byte (s # m # n # p @ [c]) @ es, term_polls := tl (term_polls w),
        rx_trace := rx_trace w @ [Poll False, Get (ucast HDR_START)]\<rparr>"
      by (simp add: w1_def)
  qed
  also have "\<dots> = pbstx_receive upd w2"
    using _ _ r1
  proof (rule step_SEQ)
    show "rx_state w1 = PR_SEQ" by (simp add: w1_def)
    show "rx_in w1 = Byte s # map Byte (m # n # p @ [c]) @ es" by (simp add: w1_def)
    show "w2 = w1\<lparr>seq := s, pkt_crc := upd 0 s, rx_state := PR_MSGID,
        rx_in := map Byte (m # n # p @ [c]) @ es, term_polls := tl (term_polls w1),
        rx_trace := rx_trace w1 @ [Poll False, Get (ucast s)]\<rparr>"
      by (simp add: w2_def)
  qed
  also have "\<dots> = pbstx_receive upd w3"
    using _ _ r2
  proof (rule step_MSGID)
    show "rx_state w2 = PR_MSGID" by (simp add: w2_def)
    show "rx_in w2 = Byte m # map Byte (n # p @ [c]) @ es" by (simp add: w2_def)
    show "w3 = w2\<lparr>pkt_crc := upd (pkt_crc w2) m, rx_state := PR_LEN, msgid := m,
        rx_in := map Byte (n # p @ [c]) @ es, term_polls := tl (term_polls w2),
        rx_trace := rx_trace w2 @ [Poll False, Get (ucast m)]\<rparr>"
      by (simp add: w3_def)
  qed
  also have "\<dots> = pbstx_receive upd w4"
  proof (cases "n = 0")
    case True
    with len have "p = []" by simp
    show ?thesis
      using _ _ r3
    proof (rule step_LEN_zero)
      show "rx_state w3 = PR_LEN" by (simp add: w3_def)
      show "rx_in w3 = Byte 0 # Byte c # es"
        using True \<open>p = []\<close> by (simp add: w3_def)
      show "w4 = w3\<lparr>pkt_crc := upd (pkt_crc w3) 0, rx_state := PR_CRC, payload_len := 0,
          rx_in := Byte c # es, term_polls := tl (term_polls w3),
          rx_trace := rx_trace w3 @ [Poll False, Get 0]\<rparr>"
        using True \<open>p = []\<close> by (simp add: w4_def rd_def PIOS_CRC_updateCRC_def)
    qed
  next
    case False
    show ?thesis
      using _ _ r3 False len
    proof (rule step_LEN_payload)
      show "rx_state w3 = PR_LEN" by (simp add: w3_def)
      show "rx_in w3 = Byte n # map Byte p @ Byte c # es" by (simp add: w3_def)
      show "w4 = w3\<lparr>pkt_crc := PIOS_CRC_updateCRC upd (upd (pkt_crc w3) n) p,
          rx_state := PR_CRC, payload := p @ drop (unat n) (payload w3), payload_len := n,
          rx_in := Byte c # es, term_polls := tl (term_polls w3),
          rx_trace := rx_trace w3 @
            [Poll False, Get (ucast n), Read (unat n) (ucast n)]\<rparr>"
        using False by (simp add: w4_def rd_def)
    qed
  qed
  also have "\<dots> =
     (if pkt_crc w4 = c then MSG_OK else MSG_RESET,
      w4\<lparr>rx_state := PR_WAIT_START, rx_in := es, term_polls := tl (term_polls w4),
        rx_trace := rx_trace w4 @ [Poll False, Get (ucast c),
          Alert ALS_COMM (if pkt_crc w4 = c then AL_NORMAL else AL_FAIL)]\<rparr>)"
    using _ _ r4
  proof (rule step_CRC)
    show "rx_state w4 = PR_CRC" by (simp add: w4_def)
    show "rx_in w4 = Byte c # es" by (simp add: w4_def)
  qed
  finally have run: "pbstx_receive upd w =
     (if pkt_crc w4 = c then MSG_OK else MSG_RESET,
      w4\<lparr>rx_state := PR_WAIT_START, rx_in := es, term_polls := tl (term_polls w4),
        rx_trace := rx_trace w4 @ [Poll False, Get (ucast c),
          Alert ALS_COMM (if pkt_crc w4 = c then AL_NORMAL else AL_FAIL)]\<rparr>)" .
  have crc: "pkt_crc w4 = C"
    by (simp add: w1_def w2_def w3_def w4_def C_alt)
  have "w4\<lparr>rx_state := PR_WAIT_START, rx_in := es, term_polls := tl (term_polls w4),
        rx_trace := rx_trace w4 @ [Poll False, Get (ucast c),
          Alert ALS_COMM (if C = c then AL_NORMAL else AL_FAIL)]\<rparr> =
     w\<lparr>seq := s, pkt_crc := C,
        rx_state := PR_WAIT_START, msgid := m, payload := p @ drop (unat n) (payload w),
        payload_len := n, rx_in := es, term_polls := drop 5 (term_polls w),
        rx_trace := rx_trace w @
          [Poll False, Get (ucast HDR_START), Poll False, Get (ucast s),
           Poll False, Get (ucast m), Poll False, Get (ucast n)] @ rd @
          [Poll False, Get (ucast c),
           Alert ALS_COMM (if C = c then AL_NORMAL else AL_FAIL)]\<rparr>"
    by (simp add: w1_def w2_def w3_def w4_def drop_5_tl C_alt)
  with run show ?thesis
    unfolding crc unfolding C_def rd_def by simp
qed

lemma receive_failure:
  assumes "next_event w = Timeout \<or> next_event w = Reset" and "\<not> term_requested w"
  shows "pbstx_receive upd w =
    (msg_of_event (next_event w),
     w\<lparr>rx_in := tl (rx_in w), term_polls := tl (term_polls w),
       rx_trace := rx_trace w @ [Poll False, Get (msg_of_event (next_event w))]\<rparr>)"
proof -
  let ?w1 = "w\<lparr>term_polls := tl (term_polls w), rx_trace := rx_trace w @ [Poll False]\<rparr>"
  have "next_event ?w1 = next_event w"
    by (simp add: next_event_def head_event_def)
  with assms(1) have "rx_iteration upd ?w1 =
      Return (msg_of_event (next_event w))
        (?w1\<lparr>rx_in := tl (rx_in ?w1),
           rx_trace := rx_trace ?w1 @ [Get (msg_of_event (next_event w))]\<rparr>)"
    using iteration_failure [of ?w1 upd] by simp
  with assms(2) show ?thesis
    by (simp add: receive_running)
qed

lemma no_request_drop:
  "True \<notin> set ps \<Longrightarrow> True \<notin> set (drop k ps)"
  by (auto dest: in_set_dropD)

subsection \<open>A bulk read never reports a failure\<close>

lemma read_bytes_count:
  "read_bytes n es = (bs, es') \<Longrightarrow> length bs \<le> n"
proof (induction n es arbitrary: bs es' rule: read_bytes.induct)
  case (1 n)
  then show ?case by simp
next
  case (2 n e es)
  show ?case
  proof (cases "n = 0")
    case True
    with "2.prems" show ?thesis by simp
  next
    case False
    show ?thesis
    proof (cases e)
      case (Byte b)
      obtain bs0 es0 where rb: "read_bytes (n - 1) es = (bs0, es0)"
        by (cases "read_bytes (n - 1) es") auto
      from "2.IH" [OF False Byte rb] have "length bs0 \<le> n - 1" .
      moreover from "2.prems" False Byte rb have "bs = b # bs0" by simp
      ultimately show ?thesis using False by simp
    next
      case Timeout
      with "2.prems" False show ?thesis by simp
    next
      case Reset
      with "2.prems" False show ?thesis by simp
    qed
  qed
qed

lemma read_bytes_short:
  assumes "length bs < n" and "head_event rest = Timeout \<or> head_event rest = Reset"
  shows "read_bytes n (map Byte bs @ rest) = (bs, tl rest)"
  using assms(1)
proof (induction bs arbitrary: n)
  case Nil
  with assms(2) show ?case
    by (cases rest) (auto simp: head_event_def)
next
  case (Cons b bs)
  then have "read_bytes (n - 1) (map Byte bs @ rest) = (bs, tl rest)"
    by auto
  with Cons.prems show ?case by auto
qed

text \<open>
  The result of the bulk read is a count of at most 255, so the test for \<^verbatim>\<open>Q_TIMEOUT\<close> and
  \<^verbatim>\<open>Q_RESET\<close> under \<^verbatim>\<open>case PR_PAYLOAD\<close> never succeeds: the code after the read always goes
  on to \<^verbatim>\<open>PR_CRC\<close>.
\<close>

lemma rx_payload_continues:
  "\<exists>w'. rx_payload upd w = Continue w' \<and> rx_state w' = PR_CRC \<and>
     alerts (rx_trace w') = alerts (rx_trace w)"
proof -
  obtain bs es where rb: "read_bytes (unat (payload_len w)) (rx_in w) = (bs, es)"
    by (cases "read_bytes (unat (payload_len w)) (rx_in w)") auto
  from read_bytes_count [OF rb] unat_byte_less [of "payload_len w"]
  have "length bs < 256" by simp
  then have "(of_nat (length bs) :: msg_t) \<noteq> Q_TIMEOUT"
    and "(of_nat (length bs) :: msg_t) \<noteq> Q_RESET"
    by (rule count_msg_not_failure)+
  with rb show ?thesis
    by (simp add: rx_payload_def chnReadTimeout_def Let_def alerts_append)
qed

subsection \<open>The log of a call\<close>

lemma payload_trace:
  "\<exists>eff. rx_trace (world (rx_payload upd w)) = rx_trace w @ eff \<and> list_all is_effect eff"
proof (cases "read_bytes (unat (payload_len w)) (rx_in w)")
  case (Pair bs es)
  then show ?thesis
    by (simp add: rx_payload_def chnReadTimeout_def alert_component_def Let_def)
qed

lemma switch_trace:
  "\<exists>eff. rx_trace (world (rx_switch upd ret w)) = rx_trace w @ eff \<and> list_all is_effect eff"
proof (cases "rx_state w")
  case PR_LEN
  show ?thesis
  proof (cases "(ucast ret :: uint8_t) = 0")
    case True
    with PR_LEN show ?thesis by (simp add: rx_switch_def)
  next
    case False
    with PR_LEN show ?thesis
      using payload_trace [of upd "w\<lparr>payload_len := ucast ret,
        pkt_crc := upd (pkt_crc w) (ucast ret), rx_state := PR_PAYLOAD\<rparr>"]
      by (simp add: rx_switch_def)
  qed
next
  case PR_PAYLOAD
  then show ?thesis
    using payload_trace [of upd w] by (simp add: rx_switch_def)
qed (auto simp add: rx_switch_def alert_component_def Let_def)

lemma iteration_trace:
  "\<exists>g eff. rx_trace (world (rx_iteration upd w)) = rx_trace w @ Get g # eff \<and>
     list_all is_effect eff"
proof -
  let ?g = "msg_of_event (next_event w)"
  let ?w1 = "w\<lparr>rx_in := tl (rx_in w), rx_trace := rx_trace w @ [Get ?g]\<rparr>"
  show ?thesis
  proof (cases "?g = Q_TIMEOUT \<or> ?g = Q_RESET")
    case True
    then have "rx_iteration upd w = Return ?g ?w1"
      by (simp add: rx_iteration_def chnGetTimeout_def Let_def)
    then show ?thesis by simp
  next
    case False
    then have "rx_iteration upd w = rx_switch upd ?g ?w1"
      by (simp add: rx_iteration_def chnGetTimeout_def Let_def)
    moreover obtain eff where
      "rx_trace (world (rx_switch upd ?g ?w1)) = rx_trace ?w1 @ eff" "list_all is_effect eff"
      using switch_trace [of upd ?g ?w1] by blast
    ultimately show ?thesis by simp
  qed
qed

lemma paced_head_body: "paced LoopHead tr \<Longrightarrow> paced Body tr"
  by (cases tr rule: alerts.cases) simp_all

lemma paced_effects: "list_all is_effect eff \<Longrightarrow> paced Body (eff @ tr) = paced Body tr"
  by (induction eff rule: alerts.induct) simp_all

lemma effects_no_poll: "list_all is_effect eff \<Longrightarrow> Poll t \<notin> set eff"
  by (induction eff rule: alerts.induct) simp_all

lemma receive_paced:
  "pbstx_receive upd w = (ret, w') \<Longrightarrow>
   \<exists>tr. rx_trace w' = rx_trace w @ tr \<and> paced LoopHead tr \<and>
     (Poll True \<in> set tr \<longrightarrow> ret = MSG_RESET)"
proof (induction upd w arbitrary: ret w' rule: pbstx_receive.induct)
  case (1 upd w)
  show ?case
  proof (cases "term_requested w")
    case True
    with "1.prems" have "ret = MSG_RESET" and "rx_trace w' = rx_trace w @ [Poll True]"
      by (auto simp: receive_terminate)
    then show ?thesis by simp
  next
    case False
    let ?w1 = "w\<lparr>term_polls := tl (term_polls w), rx_trace := rx_trace w @ [Poll False]\<rparr>"
    from False have poll: "(False, ?w1) = chThdShouldTerminate w"
      by (simp add: chThdShouldTerminate_def)
    obtain g eff where
      it: "rx_trace (world (rx_iteration upd ?w1)) = rx_trace ?w1 @ Get g # eff"
      and eff: "list_all is_effect eff"
      using iteration_trace [of upd ?w1] by blast
    show ?thesis
    proof (cases "rx_iteration upd ?w1")
      case (Return r w2)
      with False "1.prems" have "w' = w2"
        by (simp add: receive_running)
      with it Return have "rx_trace w' = rx_trace w @ Poll False # Get g # eff"
        by simp
      moreover have "paced LoopHead (Poll False # Get g # eff)"
        using paced_effects [OF eff, of "[]"] by simp
      moreover have "Poll True \<notin> set (Poll False # Get g # eff)"
        using effects_no_poll [OF eff] by simp
      ultimately show ?thesis by blast
    next
      case (Continue w2)
      with False "1.prems" have "pbstx_receive upd w2 = (ret, w')"
        by (simp add: receive_running)
      from "1.IH" [OF poll _ Continue this] obtain tr where
        tr: "rx_trace w' = rx_trace w2 @ tr" "paced LoopHead tr"
          "Poll True \<in> set tr \<longrightarrow> ret = MSG_RESET"
        by auto
      from it Continue tr(1)
      have "rx_trace w' = rx_trace w @ Poll False # Get g # eff @ tr"
        by simp
      moreover have "paced LoopHead (Poll False # Get g # eff @ tr)"
        using paced_effects [OF eff, of tr] paced_head_body [OF tr(2)] by simp
      moreover have "Poll True \<in> set (Poll False # Get g # eff @ tr) \<longrightarrow> ret = MSG_RESET"
        using effects_no_poll [OF eff] tr(3) by simp
      ultimately show ?thesis by blast
    qed
  qed
qed

subsection \<open>A send on which every write succeeds\<close>

lemma written_append: "written (tr @ tr') = written tr @ written tr'"
  by (induction tr rule: written.induct) simp_all

lemma all_sent:
  "set (tx_outcomes w) \<subseteq> {Sent} \<Longrightarrow> next_outcome w = Sent"
  by (cases "tx_outcomes w") (simp_all add: next_outcome_def)

lemma all_sent_tl:
  "set os \<subseteq> {Sent} \<Longrightarrow> set (tl os) \<subseteq> {Sent}"
  by (cases os) simp_all

lemma header_count_not_failure: "(4 :: msg_t) \<noteq> Q_TIMEOUT" "(4 :: msg_t) \<noteq> Q_RESET"
  by (simp_all add: Q_TIMEOUT_def Q_RESET_def)

lemma word_pos_iff: "(0 < (n::uint8_t)) = (n \<noteq> 0)"
  by (simp add: word_gt_0)

lemma send_all_sent:
  assumes ok: "set (tx_outcomes w) \<subseteq> {Sent}" and len: "unat n \<le> length p"
  shows "pbstx_send upd m p n w =
    (Q_OK,
     w\<lparr>tx_seq := tx_seq w + 1,
       tx_outcomes := (if n = 0 then tl (tl (tx_outcomes w)) else tl (tl (tl (tx_outcomes w)))),
       tx_trace := tx_trace w @ [Lock, Write [HDR_START, tx_seq w, m, n] 4] @
         (if n = 0 then [] else [Write (take (unat n) p) (ucast n)]) @
         [Put (PIOS_CRC_updateCRC upd 0 (tx_seq w # m # n # take (unat n) p)) Q_OK,
          Unlock]\<rparr>)"
proof -
  have o1: "next_outcome (w\<lparr>tx_seq := a, tx_trace := b\<rparr>) = Sent" for a b
    using ok by (intro all_sent) simp
  have o2: "next_outcome (w\<lparr>tx_seq := a, tx_outcomes := tl (tx_outcomes w), tx_trace := b\<rparr>) = Sent"
    for a b
    using ok by (intro all_sent) (simp add: all_sent_tl)
  have o3: "next_outcome (w\<lparr>tx_seq := a, tx_outcomes := tl (tl (tx_outcomes w)), tx_trace := b\<rparr>) =
      Sent" for a b
    using ok by (intro all_sent) (simp add: all_sent_tl)
  have m: "min (length p) (unat n) = unat n"
    using len by simp
  show ?thesis
  proof (cases "n = 0")
    case True
    then show ?thesis
      by (simp add: pbstx_send_def Let_def chMtxLock_def chMtxUnlock_def chnWriteTimeout_def
          chnPutTimeout_def o1 o2 header_count_not_failure PIOS_CRC_updateCRC_def)
  next
    case False
    then show ?thesis
      by (simp add: pbstx_send_def Let_def chMtxLock_def chMtxUnlock_def chnWriteTimeout_def
          chnPutTimeout_def o1 o2 o3 m header_count_not_failure byte_msg_not_failure
          word_pos_iff PIOS_CRC_updateCRC_def)
  qed
qed


text \<open>
  The result of a block write of fewer than 256 bytes is a count, never \<^verbatim>\<open>Q_TIMEOUT\<close> or
  \<^verbatim>\<open>Q_RESET\<close>: the two tests for them in \<^verbatim>\<open>pbstx_send\<close> never succeed.
\<close>

lemma write_never_reports_failure:
  assumes "length bs < 256"
  shows "fst (chnWriteTimeout bs w) \<noteq> Q_TIMEOUT \<and> fst (chnWriteTimeout bs w) \<noteq> Q_RESET"
proof (cases "next_outcome w")
  case Sent
  with assms show ?thesis
    by (simp add: chnWriteTimeout_def Let_def count_msg_not_failure)
next
  case (TxTimeout k)
  from assms have "min k (length bs) < 256" by simp
  with TxTimeout show ?thesis
    by (simp add: chnWriteTimeout_def Let_def count_msg_not_failure)
next
  case (TxReset k)
  from assms have "min k (length bs) < 256" by simp
  with TxReset show ?thesis
    by (simp add: chnWriteTimeout_def Let_def count_msg_not_failure)
qed

subsection \<open>The concrete CRC-8 on a sample\<close>

lemma crc8_sample_tx: "PIOS_CRC_updateCRC crc8_updateByte 0 [0, 7, 2, 0x10, 0x20] = 0x03"
  by code_simp

lemma crc8_sample: "PIOS_CRC_updateCRC crc8_updateByte 0 [1, 7, 2, 0x10, 0x20] = 0x61"
  by code_simp

lemma crc8_samples:
  "PIOS_CRC_updateCRC crc8_updateByte 0 [2, 9, 1, 0x33] = 0x9a"
  "PIOS_CRC_updateCRC crc8_updateByte 0 [0, 1, 0] = 0x15"
  "PIOS_CRC_updateCRC crc8_updateByte 0 [1, 2, 0] = 0x41"
  by code_simp+

text \<open>A call that is asked to stop at its third poll.\<close>

lemma receive_until_asked_to_stop:
  "pbstx_receive crc8_updateByte
     ((rx_init (replicate 255 0) [Byte 0xa5, Byte 1, Byte 7])
        \<lparr>term_polls := [False, False, True]\<rparr>) =
   (MSG_RESET,
    (rx_init (replicate 255 0) [Byte 7])
      \<lparr>seq := 1, pkt_crc := 7, rx_state := PR_MSGID,
        rx_trace := [Poll False, Get 0xa5, Poll False, Get 1, Poll True]\<rparr>)"
  by code_simp

text \<open>A frame with a timeout in its middle, received in two calls.\<close>

lemma receive_resumes_after_timeout:
  "fst (pbstx_receive crc8_updateByte
     (rx_init (replicate 255 0) [Byte 0xa5, Byte 1, Timeout, Byte 7, Byte 0, Byte 0])) =
     Q_TIMEOUT"
  "fst (pbstx_receive crc8_updateByte (snd (pbstx_receive crc8_updateByte
     (rx_init (replicate 255 0) [Byte 0xa5, Byte 1, Timeout, Byte 7, Byte 0, Byte 0])))) =
     MSG_OK"
  by code_simp+

text \<open>
  A timeout after the start marker and the sequence byte: the call returns at the guard
  behind the single-byte read, without an alert and in \<^verbatim>\<open>PR_MSGID\<close>.
\<close>

lemma midframe_byte_timeout_example:
  "fst (pbstx_receive crc8_updateByte
     (rx_init (replicate 255 0) [Byte 0xa5, Byte 1, Timeout, Byte 7])) = Q_TIMEOUT \<and>
   alerts (rx_trace (snd (pbstx_receive crc8_updateByte
     (rx_init (replicate 255 0) [Byte 0xa5, Byte 1, Timeout, Byte 7])))) = [] \<and>
   rx_state (snd (pbstx_receive crc8_updateByte
     (rx_init (replicate 255 0) [Byte 0xa5, Byte 1, Timeout, Byte 7]))) = PR_MSGID"
  by code_simp

section \<open>The claims\<close>

subsection \<open>Receiving\<close>

text \<open>
  C2. A frame \<open>0xA5, s, m, n, p, c\<close> arrives at an idle receiver. When the trailing byte
  \<open>c\<close> is read in the CRC state it is compared with the CRC-8 accumulated over \<open>s\<close>,
  \<open>m\<close>, \<open>n\<close> and the payload \<open>p\<close>: if they are equal the function calls the fault indicator
  with "normal" for the comm component and returns \<^verbatim>\<open>MSG_OK\<close>, otherwise it calls it with
  "fail" and returns \<^verbatim>\<open>MSG_RESET\<close>; either way the receiver is back in \<^verbatim>\<open>PR_WAIT_START\<close>.
\<close>

theorem crc_state_verdict:
  assumes "rx_state w = PR_WAIT_START"
    and "rx_in w = map Byte (HDR_START # s # m # n # p @ [c]) @ es"
    and "length p = unat n"
    and "True \<notin> set (term_polls w)"
    and "pbstx_receive upd w = (ret, w')"
  shows "rx_state w' = PR_WAIT_START \<and>
    (if c = PIOS_CRC_updateCRC upd 0 (s # m # n # p)
     then ret = MSG_OK \<and> alerts (rx_trace w') = alerts (rx_trace w) @ [(ALS_COMM, AL_NORMAL)]
     else ret = MSG_RESET \<and> alerts (rx_trace w') = alerts (rx_trace w) @ [(ALS_COMM, AL_FAIL)])"
  using assms(5) unfolding receive_frame [OF assms(1-4)]
  by (auto simp: alerts_append)

text \<open>A frame with the right trailing byte, and the same frame with a wrong one.\<close>

theorem crc_state_verdict_witness:
  "fst (pbstx_receive crc8_updateByte
     (rx_init (replicate 255 0) (map Byte [0xa5, 1, 7, 2, 0x10, 0x20, 0x61]))) = MSG_OK \<and>
   rx_state (snd (pbstx_receive crc8_updateByte
     (rx_init (replicate 255 0) (map Byte [0xa5, 1, 7, 2, 0x10, 0x20, 0x61])))) = PR_WAIT_START \<and>
   alerts (rx_trace (snd (pbstx_receive crc8_updateByte
     (rx_init (replicate 255 0) (map Byte [0xa5, 1, 7, 2, 0x10, 0x20, 0x61]))))) =
     [(ALS_COMM, AL_NORMAL)] \<and>
   fst (pbstx_receive crc8_updateByte
     (rx_init (replicate 255 0) (map Byte [0xa5, 1, 7, 2, 0x10, 0x20, 0x60]))) = MSG_RESET \<and>
   alerts (rx_trace (snd (pbstx_receive crc8_updateByte
     (rx_init (replicate 255 0) (map Byte [0xa5, 1, 7, 2, 0x10, 0x20, 0x60]))))) =
     [(ALS_COMM, AL_FAIL)]"
  using crc_state_verdict [of "rx_init (replicate 255 0) (map Byte [0xa5, 1, 7, 2, 0x10, 0x20, 0x61])"
      1 7 2 "[0x10, 0x20]" "0x61" "[]" crc8_updateByte
      "fst (pbstx_receive crc8_updateByte
        (rx_init (replicate 255 0) (map Byte [0xa5, 1, 7, 2, 0x10, 0x20, 0x61])))"
      "snd (pbstx_receive crc8_updateByte
        (rx_init (replicate 255 0) (map Byte [0xa5, 1, 7, 2, 0x10, 0x20, 0x61])))"]
    crc_state_verdict [of "rx_init (replicate 255 0) (map Byte [0xa5, 1, 7, 2, 0x10, 0x20, 0x60])"
      1 7 2 "[0x10, 0x20]" "0x60" "[]" crc8_updateByte
      "fst (pbstx_receive crc8_updateByte
        (rx_init (replicate 255 0) (map Byte [0xa5, 1, 7, 2, 0x10, 0x20, 0x60])))"
      "snd (pbstx_receive crc8_updateByte
        (rx_init (replicate 255 0) (map Byte [0xa5, 1, 7, 2, 0x10, 0x20, 0x60])))"]
  by (simp add: rx_init_def HDR_START_def crc8_sample)

text \<open>
  C3. The claim asks that a timeout or reset in the middle of a frame be reported, be
  signalled to the fault indicator and put the receiver back to \<^verbatim>\<open>PR_WAIT_START\<close>. The
  code has these three steps after the payload read (lines 119 to 123), under a test of
  the read's result for \<^verbatim>\<open>Q_TIMEOUT\<close> and \<^verbatim>\<open>Q_RESET\<close>; but the result of \<^verbatim>\<open>chnReadTimeout\<close> is
  a byte count, so the test never succeeds. Here the start marker, sequence 1,
  message-id 7, length 2 and one payload byte arrive, then the channel times out. The
  bulk read returns 1, no alert is raised, the CRC is folded over the two bytes of the
  buffer, and the receiver goes to \<^verbatim>\<open>PR_CRC\<close>; the call returns \<^verbatim>\<open>Q_TIMEOUT\<close> from its next
  single-byte read, still in \<^verbatim>\<open>PR_CRC\<close> and with the fault indicator never called.
\<close>

theorem payload_timeout_goes_undetected:
  "fst (pbstx_receive crc8_updateByte
     (rx_init (replicate 255 0)
        [Byte 0xa5, Byte 1, Byte 7, Byte 2, Byte 0x10, Timeout])) = Q_TIMEOUT \<and>
   alerts (rx_trace (snd (pbstx_receive crc8_updateByte
     (rx_init (replicate 255 0)
        [Byte 0xa5, Byte 1, Byte 7, Byte 2, Byte 0x10, Timeout])))) = [] \<and>
   rx_state (snd (pbstx_receive crc8_updateByte
     (rx_init (replicate 255 0)
        [Byte 0xa5, Byte 1, Byte 7, Byte 2, Byte 0x10, Timeout]))) = PR_CRC \<and>
   rx_trace (snd (pbstx_receive crc8_updateByte
     (rx_init (replicate 255 0)
        [Byte 0xa5, Byte 1, Byte 7, Byte 2, Byte 0x10, Timeout]))) =
     [Poll False, Get 0xa5, Poll False, Get 1, Poll False, Get 7, Poll False, Get 2,
      Read 2 1, Poll False, Get Q_TIMEOUT]"
  by code_simp

text \<open>
  C4. A single-byte read that ends in a timeout or a channel reset makes the function
  return that code (\<^verbatim>\<open>Q_TIMEOUT\<close> or \<^verbatim>\<open>Q_RESET\<close>) at once, in whatever state the
  receiver is, so in particular when it is idle: the fault indicator is not called, and
  nothing but the environment changes.
\<close>

theorem single_byte_timeout_no_data:
  assumes "next_event w = Timeout \<or> next_event w = Reset"
    and "\<not> term_requested w"
    and "pbstx_receive upd w = (ret, w')"
  shows "ret = msg_of_event (next_event w) \<and> (ret = Q_TIMEOUT \<or> ret = Q_RESET) \<and>
    alerts (rx_trace w') = alerts (rx_trace w) \<and>
    w' = w\<lparr>rx_in := tl (rx_in w), term_polls := tl (term_polls w),
           rx_trace := rx_trace w @ [Poll False, Get ret]\<rparr>"
  using assms(3) unfolding receive_failure [OF assms(1,2)]
  using assms(1) by (auto simp: alerts_append)

theorem single_byte_timeout_no_data_witness:
  "fst (pbstx_receive crc8_updateByte (rx_init (replicate 255 0) [Timeout, Byte 0xa5])) = Q_TIMEOUT \<and>
   alerts (rx_trace (snd (pbstx_receive crc8_updateByte
     (rx_init (replicate 255 0) [Timeout, Byte 0xa5])))) = [] \<and>
   rx_state (snd (pbstx_receive crc8_updateByte
     (rx_init (replicate 255 0) [Timeout, Byte 0xa5]))) = PR_WAIT_START \<and>
   rx_in (snd (pbstx_receive crc8_updateByte
     (rx_init (replicate 255 0) [Timeout, Byte 0xa5]))) = [Byte 0xa5]"
  using single_byte_timeout_no_data [of "rx_init (replicate 255 0) [Timeout, Byte 0xa5]"
      crc8_updateByte
      "fst (pbstx_receive crc8_updateByte (rx_init (replicate 255 0) [Timeout, Byte 0xa5]))"
      "snd (pbstx_receive crc8_updateByte (rx_init (replicate 255 0) [Timeout, Byte 0xa5]))"]
  by (simp add: rx_init_def next_event_def head_event_def term_requested_def)

text \<open>
  C5, as the code has it. The claim is about every corrupted frame. The receiver has one
  means of resynchronising, the scan for the start marker in \<^verbatim>\<open>PR_WAIT_START\<close>, and it
  trusts the length byte. Here the frame \<open>0xA5, 0, 1, 0, 0x15\<close> has its length byte
  corrupted from 0 to 5 and is followed by the well-formed frame \<open>0xA5, 1, 2, 0, 0x41\<close>.
  The payload read of 5 bytes swallows the first frame's CRC byte and the second frame up
  to its length byte: the first call returns \<^verbatim>\<open>MSG_RESET\<close> with the whole input consumed,
  the next call times out, and the message-id the caller sees is that of the corrupted
  frame.
\<close>

theorem corrupted_length_loses_next_frame_counterexample:
  "PIOS_CRC_updateCRC crc8_updateByte 0 [0, 1, 0] = 0x15 \<and>
   PIOS_CRC_updateCRC crc8_updateByte 0 [1, 2, 0] = 0x41 \<and>
   fst (pbstx_receive crc8_updateByte
     (rx_init (replicate 255 0)
        (map Byte [0xa5, 0, 1, 5, 0x15, 0xa5, 1, 2, 0, 0x41]))) = MSG_RESET \<and>
   rx_in (snd (pbstx_receive crc8_updateByte
     (rx_init (replicate 255 0)
        (map Byte [0xa5, 0, 1, 5, 0x15, 0xa5, 1, 2, 0, 0x41])))) = [] \<and>
   fst (pbstx_receive crc8_updateByte (snd (pbstx_receive crc8_updateByte
     (rx_init (replicate 255 0)
        (map Byte [0xa5, 0, 1, 5, 0x15, 0xa5, 1, 2, 0, 0x41]))))) = Q_TIMEOUT \<and>
   msgid (snd (pbstx_receive crc8_updateByte (snd (pbstx_receive crc8_updateByte
     (rx_init (replicate 255 0)
        (map Byte [0xa5, 0, 1, 5, 0x15, 0xa5, 1, 2, 0, 0x41])))))) = 1"
  by code_simp

text \<open>
  C5, amended. When the first frame is complete, with its start marker and its length byte
  intact, and its trailing byte is not the CRC-8 of its sequence, message-id, length and
  payload bytes, and a well-formed frame follows it immediately, then the first call
  returns \<^verbatim>\<open>MSG_RESET\<close> and the second call returns \<^verbatim>\<open>MSG_OK\<close> with the second frame's
  message-id, length and payload in the out-parameters.
\<close>

theorem resynchronises_after_bad_crc:
  assumes "rx_state w = PR_WAIT_START"
    and "rx_in w =
      map Byte (HDR_START # s1 # m1 # n1 # p1 @ [c1]) @
      map Byte (HDR_START # s2 # m2 # n2 # p2 @
                  [PIOS_CRC_updateCRC upd 0 (s2 # m2 # n2 # p2)]) @ es"
    and "length p1 = unat n1" and "length p2 = unat n2"
    and "c1 \<noteq> PIOS_CRC_updateCRC upd 0 (s1 # m1 # n1 # p1)"
    and "True \<notin> set (term_polls w)"
    and "pbstx_receive upd w = (r1, w1)"
    and "pbstx_receive upd w1 = (r2, w2)"
  shows "r1 = MSG_RESET \<and> r2 = MSG_OK \<and> msgid w2 = m2 \<and> payload_len w2 = n2 \<and>
    take (unat n2) (payload w2) = p2"
proof -
  let ?f2 = "HDR_START # s2 # m2 # n2 # p2 @ [PIOS_CRC_updateCRC upd 0 (s2 # m2 # n2 # p2)]"
  have first: "pbstx_receive upd w = (r1, w1)"
    by (rule assms(7))
  have in1: "rx_in w = map Byte (HDR_START # s1 # m1 # n1 # p1 @ [c1]) @ (map Byte ?f2 @ es)"
    using assms(2) by simp
  from first assms(5)
  have r1: "r1 = MSG_RESET" and st1: "rx_state w1 = PR_WAIT_START"
    and rest1: "rx_in w1 = map Byte ?f2 @ es"
    and polls1: "term_polls w1 = drop 5 (term_polls w)"
    unfolding receive_frame [OF assms(1) in1 assms(3) assms(6)]
    by auto
  from polls1 assms(6) have run1: "True \<notin> set (term_polls w1)"
    by (simp add: no_request_drop)
  from assms(8) assms(4)
  have "r2 = MSG_OK \<and> msgid w2 = m2 \<and> payload_len w2 = n2 \<and> take (unat n2) (payload w2) = p2"
    unfolding receive_frame [OF st1 rest1 assms(4) run1]
    by auto
  with r1 show ?thesis by simp
qed

theorem resynchronises_after_bad_crc_witness:
  "fst (pbstx_receive crc8_updateByte
     (rx_init (replicate 255 0)
        (map Byte [0xa5, 1, 7, 2, 0x10, 0x20, 0x60, 0xa5, 2, 9, 1, 0x33, 0x9a]))) = MSG_RESET \<and>
   fst (pbstx_receive crc8_updateByte (snd (pbstx_receive crc8_updateByte
     (rx_init (replicate 255 0)
        (map Byte [0xa5, 1, 7, 2, 0x10, 0x20, 0x60, 0xa5, 2, 9, 1, 0x33, 0x9a]))))) = MSG_OK \<and>
   msgid (snd (pbstx_receive crc8_updateByte (snd (pbstx_receive crc8_updateByte
     (rx_init (replicate 255 0)
        (map Byte [0xa5, 1, 7, 2, 0x10, 0x20, 0x60, 0xa5, 2, 9, 1, 0x33, 0x9a])))))) = 9 \<and>
   payload_len (snd (pbstx_receive crc8_updateByte (snd (pbstx_receive crc8_updateByte
     (rx_init (replicate 255 0)
        (map Byte [0xa5, 1, 7, 2, 0x10, 0x20, 0x60, 0xa5, 2, 9, 1, 0x33, 0x9a])))))) = 1 \<and>
   take 1 (payload (snd (pbstx_receive crc8_updateByte (snd (pbstx_receive crc8_updateByte
     (rx_init (replicate 255 0)
        (map Byte [0xa5, 1, 7, 2, 0x10, 0x20, 0x60, 0xa5, 2, 9, 1, 0x33, 0x9a]))))))) = [0x33]"
  using resynchronises_after_bad_crc
    [of "rx_init (replicate 255 0)
        (map Byte [0xa5, 1, 7, 2, 0x10, 0x20, 0x60, 0xa5, 2, 9, 1, 0x33, 0x9a])"
      1 7 2 "[0x10, 0x20]" "0x60" 2 9 1 "[0x33]" crc8_updateByte "[]"
      "fst (pbstx_receive crc8_updateByte
        (rx_init (replicate 255 0)
          (map Byte [0xa5, 1, 7, 2, 0x10, 0x20, 0x60, 0xa5, 2, 9, 1, 0x33, 0x9a])))"
      "snd (pbstx_receive crc8_updateByte
        (rx_init (replicate 255 0)
          (map Byte [0xa5, 1, 7, 2, 0x10, 0x20, 0x60, 0xa5, 2, 9, 1, 0x33, 0x9a])))"
      "fst (pbstx_receive crc8_updateByte (snd (pbstx_receive crc8_updateByte
        (rx_init (replicate 255 0)
          (map Byte [0xa5, 1, 7, 2, 0x10, 0x20, 0x60, 0xa5, 2, 9, 1, 0x33, 0x9a])))))"
      "snd (pbstx_receive crc8_updateByte (snd (pbstx_receive crc8_updateByte
        (rx_init (replicate 255 0)
          (map Byte [0xa5, 1, 7, 2, 0x10, 0x20, 0x60, 0xa5, 2, 9, 1, 0x33, 0x9a])))))"]
  by (simp add: rx_init_def HDR_START_def crc8_sample crc8_samples)

text \<open>
  C7. One pass of the loop body in state \<^verbatim>\<open>PR_LEN\<close> that reads the length byte \<open>n\<close>. If
  \<open>n\<close> is zero the pass ends in \<^verbatim>\<open>PR_CRC\<close>: only the length byte has been taken from the
  channel and no bulk read is in the log. If \<open>n\<close> is not zero the pass goes on to
  exactly one bulk read, of exactly \<open>n\<close> bytes, and then branches on its result as the code
  does: to \<^verbatim>\<open>PR_CRC\<close>, or, for a result \<^verbatim>\<open>Q_TIMEOUT\<close> or \<^verbatim>\<open>Q_RESET\<close>, with an alert to
  \<^verbatim>\<open>PR_WAIT_START\<close>.
\<close>

theorem len_zero_skips_payload_read:
  assumes "rx_state w = PR_LEN" and "rx_in w = Byte n # es"
  shows "if n = 0
    then rx_iteration upd w =
      Continue (w\<lparr>pkt_crc := upd (pkt_crc w) 0, rx_state := PR_CRC, payload_len := 0,
                 rx_in := es, rx_trace := rx_trace w @ [Get 0]\<rparr>)
    else \<exists>ret. rx_trace (world (rx_iteration upd w)) =
        rx_trace w @ [Get (ucast n), Read (unat n) ret] @
          (if ret = Q_TIMEOUT \<or> ret = Q_RESET then [Alert ALS_COMM AL_FAIL] else []) \<and>
      rx_state (world (rx_iteration upd w)) =
        (if ret = Q_TIMEOUT \<or> ret = Q_RESET then PR_WAIT_START else PR_CRC) \<and>
      payload_len (world (rx_iteration upd w)) = n"
proof (cases "n = 0")
  case True
  with assms show ?thesis
    by (simp add: iteration_byte rx_switch_def)
next
  case False
  obtain bs es' where rb: "read_bytes (unat n) es = (bs, es')"
    by (cases "read_bytes (unat n) es") auto
  let ?ret = "of_nat (length bs) :: msg_t"
  have "rx_trace (world (rx_iteration upd w)) =
        rx_trace w @ [Get (ucast n), Read (unat n) ?ret] @
          (if ?ret = Q_TIMEOUT \<or> ?ret = Q_RESET then [Alert ALS_COMM AL_FAIL] else []) \<and>
      rx_state (world (rx_iteration upd w)) =
        (if ?ret = Q_TIMEOUT \<or> ?ret = Q_RESET then PR_WAIT_START else PR_CRC) \<and>
      payload_len (world (rx_iteration upd w)) = n"
    using assms False rb
    by (simp add: iteration_byte rx_switch_def rx_payload_def chnReadTimeout_def
        byte_msg_round alert_component_def Let_def)
  with False show ?thesis by auto
qed

text \<open>A zero length byte, and a length byte 2 followed by two payload bytes.\<close>

theorem len_zero_skips_payload_read_witness:
  "rx_iteration crc8_updateByte
     ((rx_init (replicate 255 0) [Byte 0, Byte 0x99])
        \<lparr>seq := 1, pkt_crc := 0x15, rx_state := PR_LEN, msgid := 7\<rparr>) =
   Continue
     ((rx_init (replicate 255 0) [Byte 0x99])
        \<lparr>seq := 1, pkt_crc := crc8_updateByte 0x15 0, rx_state := PR_CRC, msgid := 7,
          rx_trace := [Get 0]\<rparr>) \<and>
   (\<exists>ret. rx_trace (world (rx_iteration crc8_updateByte
       ((rx_init (replicate 255 0) [Byte 2, Byte 0x10, Byte 0x20, Byte 0x99])
          \<lparr>seq := 1, pkt_crc := 0x15, rx_state := PR_LEN, msgid := 7\<rparr>))) =
      [Get 2, Read 2 ret] @
        (if ret = Q_TIMEOUT \<or> ret = Q_RESET then [Alert ALS_COMM AL_FAIL] else []))"
  using len_zero_skips_payload_read
    [of "(rx_init (replicate 255 0) [Byte 0, Byte 0x99])
        \<lparr>seq := 1, pkt_crc := 0x15, rx_state := PR_LEN, msgid := 7\<rparr>"
      0 "[Byte 0x99]" crc8_updateByte]
    len_zero_skips_payload_read
    [of "(rx_init (replicate 255 0) [Byte 2, Byte 0x10, Byte 0x20, Byte 0x99])
        \<lparr>seq := 1, pkt_crc := 0x15, rx_state := PR_LEN, msgid := 7\<rparr>"
      2 "[Byte 0x10, Byte 0x20, Byte 0x99]" crc8_updateByte]
  by (auto simp add: rx_init_def)

text \<open>
  C8. The log of every call of \<^verbatim>\<open>pbstx_receive\<close> is paced: the termination flag is polled
  once at the head of each pass of the loop, a poll answered "no" is followed at once by
  that pass's one single-byte read, and a poll answered "yes" is the last entry of the
  log, so no channel read follows it; the call then returns \<^verbatim>\<open>MSG_RESET\<close>. In particular
  a call that finds the request at its first poll returns \<^verbatim>\<open>MSG_RESET\<close> with the
  channel's input untouched.
\<close>

theorem termination_polled_once_per_pass:
  assumes "pbstx_receive upd w = (ret, w')"
  shows "(\<exists>tr. rx_trace w' = rx_trace w @ tr \<and> paced LoopHead tr \<and>
            (Poll True \<in> set tr \<longrightarrow> ret = MSG_RESET)) \<and>
    (term_requested w \<longrightarrow>
       ret = MSG_RESET \<and> rx_in w' = rx_in w \<and> rx_trace w' = rx_trace w @ [Poll True])"
proof
  show "\<exists>tr. rx_trace w' = rx_trace w @ tr \<and> paced LoopHead tr \<and>
      (Poll True \<in> set tr \<longrightarrow> ret = MSG_RESET)"
    using assms by (rule receive_paced)
  show "term_requested w \<longrightarrow>
      ret = MSG_RESET \<and> rx_in w' = rx_in w \<and> rx_trace w' = rx_trace w @ [Poll True]"
    using assms by (auto simp: receive_terminate)
qed

text \<open>A request found at the first poll, and one found at the third.\<close>

theorem termination_polled_once_per_pass_witness:
  "fst (pbstx_receive crc8_updateByte
     ((rx_init (replicate 255 0) [Byte 0xa5, Byte 1, Byte 7])\<lparr>term_polls := [True]\<rparr>)) =
     MSG_RESET \<and>
   rx_in (snd (pbstx_receive crc8_updateByte
     ((rx_init (replicate 255 0) [Byte 0xa5, Byte 1, Byte 7])\<lparr>term_polls := [True]\<rparr>))) =
     [Byte 0xa5, Byte 1, Byte 7] \<and>
   rx_trace (snd (pbstx_receive crc8_updateByte
     ((rx_init (replicate 255 0) [Byte 0xa5, Byte 1, Byte 7])\<lparr>term_polls := [True]\<rparr>))) =
     [Poll True] \<and>
   rx_trace (snd (pbstx_receive crc8_updateByte
     ((rx_init (replicate 255 0) [Byte 0xa5, Byte 1, Byte 7])
        \<lparr>term_polls := [False, False, True]\<rparr>))) =
     [Poll False, Get 0xa5, Poll False, Get 1, Poll True] \<and>
   paced LoopHead (rx_trace (snd (pbstx_receive crc8_updateByte
     ((rx_init (replicate 255 0) [Byte 0xa5, Byte 1, Byte 7])
        \<lparr>term_polls := [False, False, True]\<rparr>)))) \<and>
   fst (pbstx_receive crc8_updateByte
     ((rx_init (replicate 255 0) [Byte 0xa5, Byte 1, Byte 7])
        \<lparr>term_polls := [False, False, True]\<rparr>)) = MSG_RESET"
proof -
  have "fst (pbstx_receive crc8_updateByte
      ((rx_init (replicate 255 0) [Byte 0xa5, Byte 1, Byte 7])\<lparr>term_polls := [True]\<rparr>)) =
      MSG_RESET \<and>
    rx_in (snd (pbstx_receive crc8_updateByte
      ((rx_init (replicate 255 0) [Byte 0xa5, Byte 1, Byte 7])\<lparr>term_polls := [True]\<rparr>))) =
      [Byte 0xa5, Byte 1, Byte 7] \<and>
    rx_trace (snd (pbstx_receive crc8_updateByte
      ((rx_init (replicate 255 0) [Byte 0xa5, Byte 1, Byte 7])\<lparr>term_polls := [True]\<rparr>))) =
      [Poll True]"
    using termination_polled_once_per_pass
      [of crc8_updateByte
        "((rx_init (replicate 255 0) [Byte 0xa5, Byte 1, Byte 7])\<lparr>term_polls := [True]\<rparr>)"
        "fst (pbstx_receive crc8_updateByte
          ((rx_init (replicate 255 0) [Byte 0xa5, Byte 1, Byte 7])\<lparr>term_polls := [True]\<rparr>))"
        "snd (pbstx_receive crc8_updateByte
          ((rx_init (replicate 255 0) [Byte 0xa5, Byte 1, Byte 7])\<lparr>term_polls := [True]\<rparr>))"]
    by (simp add: rx_init_def term_requested_def)
  moreover have "rx_trace (snd (pbstx_receive crc8_updateByte
      ((rx_init (replicate 255 0) [Byte 0xa5, Byte 1, Byte 7])
        \<lparr>term_polls := [False, False, True]\<rparr>))) =
      [Poll False, Get 0xa5, Poll False, Get 1, Poll True] \<and>
    paced LoopHead (rx_trace (snd (pbstx_receive crc8_updateByte
      ((rx_init (replicate 255 0) [Byte 0xa5, Byte 1, Byte 7])
        \<lparr>term_polls := [False, False, True]\<rparr>)))) \<and>
    fst (pbstx_receive crc8_updateByte
      ((rx_init (replicate 255 0) [Byte 0xa5, Byte 1, Byte 7])
        \<lparr>term_polls := [False, False, True]\<rparr>)) = MSG_RESET"
    using termination_polled_once_per_pass [OF receive_until_asked_to_stop]
    unfolding receive_until_asked_to_stop
    by (simp add: rx_init_def)
  ultimately show ?thesis
    by blast
qed

text \<open>
  C9. When the single-byte read of a mid-frame state (\<^verbatim>\<open>PR_SEQ\<close>, \<^verbatim>\<open>PR_MSGID\<close>, \<^verbatim>\<open>PR_LEN\<close>
  or \<^verbatim>\<open>PR_CRC\<close>) ends in a timeout or a reset, the function returns that code and the
  static variables \<^verbatim>\<open>rx_state\<close>, \<^verbatim>\<open>pkt_crc\<close> and \<^verbatim>\<open>seq\<close> are as before, so the next call
  goes on from the same state.
\<close>

theorem midframe_byte_timeout_keeps_statics:
  assumes "rx_state w = PR_SEQ \<or> rx_state w = PR_MSGID \<or> rx_state w = PR_LEN \<or>
      rx_state w = PR_CRC"
    and "next_event w = Timeout \<or> next_event w = Reset"
    and "\<not> term_requested w"
    and "pbstx_receive upd w = (ret, w')"
  shows "ret = msg_of_event (next_event w) \<and>
    rx_state w' = rx_state w \<and> pkt_crc w' = pkt_crc w \<and> seq w' = seq w \<and>
    w' = w\<lparr>rx_in := tl (rx_in w), term_polls := tl (term_polls w),
           rx_trace := rx_trace w @ [Poll False, Get ret]\<rparr>"
  using assms(4) unfolding receive_failure [OF assms(2,3)]
  by auto

text \<open>
  A channel reset in \<^verbatim>\<open>PR_MSGID\<close>. And a run with a timeout between the sequence byte and
  the message-id of the frame \<open>0xA5, 1, 7, 0, 0\<close>: the first call returns \<^verbatim>\<open>Q_TIMEOUT\<close>,
  the second goes on in \<^verbatim>\<open>PR_MSGID\<close> and accepts the frame.
\<close>

theorem midframe_byte_timeout_keeps_statics_witness:
  "fst (pbstx_receive crc8_updateByte
     ((rx_init (replicate 255 0) [Reset, Byte 7])\<lparr>seq := 1, pkt_crc := 7, rx_state := PR_MSGID\<rparr>))
     = Q_RESET \<and>
   rx_state (snd (pbstx_receive crc8_updateByte
     ((rx_init (replicate 255 0) [Reset, Byte 7])\<lparr>seq := 1, pkt_crc := 7, rx_state := PR_MSGID\<rparr>)))
     = PR_MSGID \<and>
   pkt_crc (snd (pbstx_receive crc8_updateByte
     ((rx_init (replicate 255 0) [Reset, Byte 7])\<lparr>seq := 1, pkt_crc := 7, rx_state := PR_MSGID\<rparr>)))
     = 7 \<and>
   seq (snd (pbstx_receive crc8_updateByte
     ((rx_init (replicate 255 0) [Reset, Byte 7])\<lparr>seq := 1, pkt_crc := 7, rx_state := PR_MSGID\<rparr>)))
     = 1 \<and>
   fst (pbstx_receive crc8_updateByte
     (rx_init (replicate 255 0) [Byte 0xa5, Byte 1, Timeout, Byte 7, Byte 0, Byte 0])) =
     Q_TIMEOUT \<and>
   fst (pbstx_receive crc8_updateByte (snd (pbstx_receive crc8_updateByte
     (rx_init (replicate 255 0) [Byte 0xa5, Byte 1, Timeout, Byte 7, Byte 0, Byte 0])))) =
     MSG_OK"
proof -
  have "fst (pbstx_receive crc8_updateByte
     ((rx_init (replicate 255 0) [Reset, Byte 7])\<lparr>seq := 1, pkt_crc := 7, rx_state := PR_MSGID\<rparr>))
     = Q_RESET \<and>
   rx_state (snd (pbstx_receive crc8_updateByte
     ((rx_init (replicate 255 0) [Reset, Byte 7])\<lparr>seq := 1, pkt_crc := 7, rx_state := PR_MSGID\<rparr>)))
     = PR_MSGID \<and>
   pkt_crc (snd (pbstx_receive crc8_updateByte
     ((rx_init (replicate 255 0) [Reset, Byte 7])\<lparr>seq := 1, pkt_crc := 7, rx_state := PR_MSGID\<rparr>)))
     = 7 \<and>
   seq (snd (pbstx_receive crc8_updateByte
     ((rx_init (replicate 255 0) [Reset, Byte 7])\<lparr>seq := 1, pkt_crc := 7, rx_state := PR_MSGID\<rparr>)))
     = 1"
    using midframe_byte_timeout_keeps_statics
      [of "(rx_init (replicate 255 0) [Reset, Byte 7])
          \<lparr>seq := 1, pkt_crc := 7, rx_state := PR_MSGID\<rparr>"
        crc8_updateByte
        "fst (pbstx_receive crc8_updateByte
          ((rx_init (replicate 255 0) [Reset, Byte 7])
            \<lparr>seq := 1, pkt_crc := 7, rx_state := PR_MSGID\<rparr>))"
        "snd (pbstx_receive crc8_updateByte
          ((rx_init (replicate 255 0) [Reset, Byte 7])
            \<lparr>seq := 1, pkt_crc := 7, rx_state := PR_MSGID\<rparr>))"]
    by (simp add: rx_init_def next_event_def head_event_def term_requested_def)
  then show ?thesis
    using receive_resumes_after_timeout by blast
qed

text \<open>
  C10. The out-parameters are written while the frame is read, before its CRC is checked:
  after a frame whose trailing byte does not match (return value \<^verbatim>\<open>MSG_RESET\<close>) the cells
  behind \<^verbatim>\<open>*msgid\<close> and \<^verbatim>\<open>*payload_len\<close> and the first bytes of the payload buffer hold the
  rejected frame's message-id, length and payload.
\<close>

theorem rejected_frame_left_in_out_parameters:
  assumes "rx_state w = PR_WAIT_START"
    and "rx_in w = map Byte (HDR_START # s # m # n # p @ [c]) @ es"
    and "length p = unat n"
    and "True \<notin> set (term_polls w)"
    and "c \<noteq> PIOS_CRC_updateCRC upd 0 (s # m # n # p)"
    and "pbstx_receive upd w = (ret, w')"
  shows "ret = MSG_RESET \<and> msgid w' = m \<and> payload_len w' = n \<and>
    take (unat n) (payload w') = p"
  using assms(5,6,3) unfolding receive_frame [OF assms(1-4)]
  by auto

theorem rejected_frame_left_in_out_parameters_witness:
  "fst (pbstx_receive crc8_updateByte
     (rx_init (replicate 255 0) (map Byte [0xa5, 1, 7, 2, 0x10, 0x20, 0x60]))) = MSG_RESET \<and>
   msgid (snd (pbstx_receive crc8_updateByte
     (rx_init (replicate 255 0) (map Byte [0xa5, 1, 7, 2, 0x10, 0x20, 0x60])))) = 7 \<and>
   payload_len (snd (pbstx_receive crc8_updateByte
     (rx_init (replicate 255 0) (map Byte [0xa5, 1, 7, 2, 0x10, 0x20, 0x60])))) = 2 \<and>
   take 2 (payload (snd (pbstx_receive crc8_updateByte
     (rx_init (replicate 255 0) (map Byte [0xa5, 1, 7, 2, 0x10, 0x20, 0x60]))))) = [0x10, 0x20]"
  using rejected_frame_left_in_out_parameters
    [of "rx_init (replicate 255 0) (map Byte [0xa5, 1, 7, 2, 0x10, 0x20, 0x60])"
      1 7 2 "[0x10, 0x20]" "0x60" "[]" crc8_updateByte
      "fst (pbstx_receive crc8_updateByte
        (rx_init (replicate 255 0) (map Byte [0xa5, 1, 7, 2, 0x10, 0x20, 0x60])))"
      "snd (pbstx_receive crc8_updateByte
        (rx_init (replicate 255 0) (map Byte [0xa5, 1, 7, 2, 0x10, 0x20, 0x60])))"]
  by (simp add: rx_init_def HDR_START_def crc8_sample)

subsection \<open>Sending\<close>

text \<open>
  C1. For every message-id \<open>m\<close>, payload buffer \<open>p\<close> and length \<open>n\<close> (a byte, so 0 to 255;
  the buffer holds at least \<open>n\<close> bytes), a call of \<^verbatim>\<open>pbstx_send\<close> on a channel that takes
  every write hands to the channel exactly the start marker 0xA5, the sequence byte, \<open>m\<close>,
  \<open>n\<close>, the \<open>n\<close> payload bytes and then one trailing byte, the CRC-8 of sequence, message-id,
  length and payload (start marker excluded). The sequence byte is the counter \<^verbatim>\<open>tx_seq\<close>,
  which the call increments by one modulo 256. A write that is cut short is C6.
\<close>

theorem send_writes_frame:
  assumes "set (tx_outcomes w) \<subseteq> {Sent}"
    and "unat n \<le> length p"
    and "pbstx_send upd m p n w = (ret, w')"
  shows "written (tx_trace w') =
      written (tx_trace w) @ [HDR_START, tx_seq w, m, n] @ take (unat n) p @
        [PIOS_CRC_updateCRC upd 0 (tx_seq w # m # n # take (unat n) p)] \<and>
    length (take (unat n) p) = unat n \<and>
    tx_seq w' = tx_seq w + 1 \<and>
    unat (tx_seq w') = (unat (tx_seq w) + 1) mod 256 \<and>
    ret = Q_OK"
proof -
  have "unat (tx_seq w + 1) = (unat (tx_seq w) + 1) mod 256"
    by (simp add: unat_word_ariths)
  with assms(3,2) show ?thesis
    unfolding send_all_sent [OF assms(1,2)]
    by (auto simp: written_append)
qed

theorem send_writes_frame_witness:
  "written (tx_trace (snd (pbstx_send crc8_updateByte 7 [0x10, 0x20] 2 (tx_init [])))) =
     [0xa5, 0, 7, 2, 0x10, 0x20, 0x03] \<and>
   tx_seq (snd (pbstx_send crc8_updateByte 7 [0x10, 0x20] 2 (tx_init []))) = 1 \<and>
   fst (pbstx_send crc8_updateByte 7 [0x10, 0x20] 2 (tx_init [])) = Q_OK"
  using send_writes_frame [of "tx_init []" 2 "[0x10, 0x20]" crc8_updateByte 7
      "fst (pbstx_send crc8_updateByte 7 [0x10, 0x20] 2 (tx_init []))"
      "snd (pbstx_send crc8_updateByte 7 [0x10, 0x20] 2 (tx_init []))"]
  by (simp add: tx_init_def HDR_START_def crc8_sample_tx)

text \<open>
  C6. The claim asks that a write of the header or of the payload that times out or meets
  a reset end the send: nothing more is written and the failure is returned. The code has
  a \<^verbatim>\<open>goto unlock_ret\<close> after each of the two writes (lines 160 and 167), under a test of
  the write's result for \<^verbatim>\<open>Q_TIMEOUT\<close> and \<^verbatim>\<open>Q_RESET\<close>; but the result of \<^verbatim>\<open>chnWriteTimeout\<close>
  is a byte count, so the test never succeeds. In the first send below the payload
  write times out after one of its two bytes, in the second the header write meets a reset
  before any byte is taken: both sends go on, write the trailing CRC byte and return
  \<^verbatim>\<open>Q_OK\<close>.
\<close>

theorem short_write_goes_undetected:
  "fst (pbstx_send crc8_updateByte 7 [0x10, 0x20] 2 (tx_init [Sent, TxTimeout 1])) = Q_OK \<and>
   tx_trace (snd (pbstx_send crc8_updateByte 7 [0x10, 0x20] 2 (tx_init [Sent, TxTimeout 1]))) =
     [Lock, Write [0xa5, 0, 7, 2] 4, Write [0x10, 0x20] 1, Put 0x03 Q_OK, Unlock] \<and>
   fst (pbstx_send crc8_updateByte 7 [0x10, 0x20] 2 (tx_init [TxReset 0])) = Q_OK \<and>
   tx_trace (snd (pbstx_send crc8_updateByte 7 [0x10, 0x20] 2 (tx_init [TxReset 0]))) =
     [Lock, Write [0xa5, 0, 7, 2] 0, Write [0x10, 0x20] 2, Put 0x03 Q_OK, Unlock]"
  by code_simp

end
